theory Spec2Isabelle
  imports Complex_Main "HOL-Library.Multiset"
begin

section \<open>Card types of the adaptive-cards library\<close>

text \<open>
  The toolkit builds objects of the third-party package \<^verbatim>\<open>adaptive_cards\<close>
  (\<^verbatim>\<open>card_types\<close>, \<^verbatim>\<open>elements\<close>, \<^verbatim>\<open>containers\<close>). The enumerations
  below carry the members the toolkit refers to (\<^verbatim>\<open>utils/constants.py\<close> lists the same
  names); a constructor is prefixed with the name of its enumeration, since several
  enumerations share member names.
\<close>

datatype font_size =
  FontSize_DEFAULT | FontSize_SMALL | FontSize_MEDIUM | FontSize_LARGE | FontSize_EXTRA_LARGE

datatype font_weight = FontWeight_LIGHTER | FontWeight_DEFAULT | FontWeight_BOLDER

datatype colors = Colors_DEFAULT | Colors_ACCENT | Colors_GOOD | Colors_WARNING | Colors_ATTENTION

datatype container_style =
  ContainerStyle_DEFAULT | ContainerStyle_EMPHASIS | ContainerStyle_GOOD
  | ContainerStyle_ATTENTION | ContainerStyle_WARNING | ContainerStyle_ACCENT

datatype spacing =
  Spacing_NONE | Spacing_SMALL | Spacing_DEFAULT | Spacing_MEDIUM | Spacing_LARGE
  | Spacing_EXTRA_LARGE | Spacing_PADDING

datatype image_size =
  ImageSize_AUTO | ImageSize_STRETCH | ImageSize_SMALL | ImageSize_MEDIUM | ImageSize_LARGE

datatype image_style = ImageStyle_DEFAULT | ImageStyle_PERSON

datatype vertical_alignment =
  VerticalAlignment_TOP | VerticalAlignment_CENTER | VerticalAlignment_BOTTOM

text \<open>A column width is \<^verbatim>\<open>Union[int, str]\<close>: a weight, or \<^verbatim>\<open>"auto"\<close>, \<^verbatim>\<open>"stretch"\<close>.\<close>

datatype width = WidthInt int | WidthStr string

section \<open>Elements\<close>

text \<open>
  An element is an object with keyword fields; a field the constructor call does not give
  keeps the library's default \<^verbatim>\<open>None\<close>. Leaf elements are records. A container, a
  column set and a column hold further elements, so the element type is a recursive
  datatype and their remaining fields are a record beside the children.
\<close>

record text_block =
  "text" :: string
  size_tb :: "font_size option"
  weight :: "font_weight option"
  color :: "colors option"
  wrap :: "bool option"
  is_subtle :: "bool option"
  id_tb :: "string option"

record image =
  url :: string
  alt_text :: "string option"
  size_img :: "image_size option"
  style_img :: "image_style option"
  id_img :: "string option"

record fact =
  title :: string
  val :: string

record input_text =
  id_it :: string
  placeholder_it :: "string option"
  is_required_it :: bool
  max_length :: "int option"

record input_date =
  id_idt :: string
  placeholder_idt :: "string option"
  is_required_idt :: bool

record input_choice =
  choice_title :: string
  choice_value :: string

record input_choice_set =
  id_ics :: string
  choices :: "input_choice list"
  placeholder_ics :: "string option"
  is_required_ics :: bool
  is_multi_select :: bool

record container_fields =
  style :: "container_style option"
  separator :: "bool option"
  spacing_c :: "spacing option"
  bleed :: "bool option"
  id_c :: "string option"

record column_set_fields =
  spacing_cs :: "spacing option"
  separator_cs :: "bool option"
  id_cs :: "string option"

record column_fields =
  width_col :: "width option"
  spacing_col :: "spacing option"
  vertical_content_alignment :: "vertical_alignment option"
  style_col :: "container_style option"

datatype element =
    TextBlock text_block
  | Image image
  | Container "element list" container_fields
  | ColumnSet "column list" column_set_fields
  | FactSet "fact list" "string option"
  | InputText input_text
  | InputDate input_date
  | InputChoiceSet input_choice_set
and column =
    Column "element list" column_fields

text \<open>The library's defaults: every optional field is \<^verbatim>\<open>None\<close>.\<close>

definition container_defaults :: container_fields where
  "container_defaults =
     \<lparr>style = None, separator = None, spacing_c = None, bleed = None, id_c = None\<rparr>"

definition column_set_defaults :: column_set_fields where
  "column_set_defaults = \<lparr>spacing_cs = None, separator_cs = None, id_cs = None\<rparr>"

definition column_defaults :: column_fields where
  "column_defaults =
     \<lparr>width_col = None, spacing_col = None, vertical_content_alignment = None,
      style_col = None\<rparr>"

section \<open>Element factory (\<^verbatim>\<open>core/element_factory.py\<close>)\<close>

text \<open>The dictionary \<^verbatim>\<open>sizes\<close> of \<^verbatim>\<open>create_heading\<close>, and its \<^verbatim>\<open>get\<close> with a default.\<close>

definition sizes :: "int \<rightharpoonup> font_size" where
  "sizes = [1 \<mapsto> FontSize_EXTRA_LARGE, 2 \<mapsto> FontSize_LARGE, 3 \<mapsto> FontSize_MEDIUM]"

definition dict_get :: "('k \<rightharpoonup> 'v) \<Rightarrow> 'k \<Rightarrow> 'v \<Rightarrow> 'v" where
  "dict_get d k dflt = (case d k of Some v \<Rightarrow> v | None \<Rightarrow> dflt)"

definition create_heading :: "string \<Rightarrow> int \<Rightarrow> element" where
  "create_heading txt level =
     (let size = dict_get sizes level FontSize_MEDIUM
      in TextBlock \<lparr>text = txt, size_tb = Some size, weight = Some FontWeight_BOLDER,
            color = None, wrap = Some True, is_subtle = None, id_tb = None\<rparr>)"

definition create_text ::
  "string \<Rightarrow> bool \<Rightarrow> font_weight option \<Rightarrow> colors option \<Rightarrow> element" where
  "create_text txt subtle wgt col =
     TextBlock \<lparr>text = txt, size_tb = None, weight = wgt, color = col, wrap = Some True,
       is_subtle = Some subtle, id_tb = None\<rparr>"

definition create_important_text :: "string \<Rightarrow> colors \<Rightarrow> element" where
  "create_important_text txt col =
     TextBlock \<lparr>text = txt, size_tb = None, weight = Some FontWeight_BOLDER,
       color = Some col, wrap = Some True, is_subtle = None, id_tb = None\<rparr>"

definition create_image ::
  "string \<Rightarrow> string option \<Rightarrow> image_size option \<Rightarrow> image_style option \<Rightarrow> element" where
  "create_image u alt sz st =
     Image \<lparr>url = u, alt_text = alt, size_img = sz, style_img = st, id_img = None\<rparr>"

section \<open>Layout helper (\<^verbatim>\<open>core/layout_helper.py\<close>)\<close>

definition create_container ::
  "element list \<Rightarrow> container_style option \<Rightarrow> spacing option \<Rightarrow> bool \<Rightarrow> string option
     \<Rightarrow> element" where
  "create_container its st sp sep ident =
     Container its \<lparr>style = st, separator = Some sep, spacing_c = sp, bleed = None,
       id_c = ident\<rparr>"

text \<open>
  \<^verbatim>\<open>if footer_items:\<close> tests truthiness: \<^verbatim>\<open>None\<close> and the empty list are both false.
\<close>

definition truthy_list :: "'a list option \<Rightarrow> bool" where
  "truthy_list xs = (case xs of None \<Rightarrow> False | Some l \<Rightarrow> l \<noteq> [])"

definition create_header_body_footer_layout ::
  "element list \<Rightarrow> element list \<Rightarrow> element list option \<Rightarrow> container_style option
     \<Rightarrow> container_style option \<Rightarrow> container_style option \<Rightarrow> element list" where
  "create_header_body_footer_layout header_items body_items footer_items header_style
       body_style footer_style =
     (let containers =
        [Container header_items (container_defaults\<lparr>style := header_style, bleed := Some True\<rparr>),
         Container body_items
           (container_defaults\<lparr>style := body_style, spacing_c := Some Spacing_MEDIUM\<rparr>)]
      in case footer_items of
           None \<Rightarrow> containers
         | Some items \<Rightarrow>
             if truthy_list footer_items
             then containers @
               [Container items
                  (container_defaults\<lparr>style := footer_style, spacing_c := Some Spacing_MEDIUM,
                     separator := Some True\<rparr>)]
             else containers)"

section \<open>Python values and library functions\<close>

text \<open>
  The values \<^verbatim>\<open>from_json\<close> receives or \<^verbatim>\<open>json.loads\<close> returns. A dictionary is an
  association list in insertion order (its keys are distinct); a Python \<^verbatim>\<open>float\<close> is
  the rational number it denotes.
\<close>

datatype json_value =
    JNull
  | JBool bool
  | JInt int
  | JFloat rat
  | JStr string
  | JList "json_value list"
  | JDict "(string \<times> json_value) list"


fun is_dict :: "json_value \<Rightarrow> bool" where
  "is_dict (JDict d) = True"
| "is_dict v = False"

fun is_list :: "json_value \<Rightarrow> bool" where
  "is_list (JList l) = True"
| "is_list v = False"

text \<open>\<^verbatim>\<open>item.keys()\<close> and \<^verbatim>\<open>item.get(key, default)\<close> of a value that is a dictionary.\<close>

fun keys :: "json_value \<Rightarrow> string list" where
  "keys (JDict d) = map fst d"
| "keys v = []"

fun get_or :: "json_value \<Rightarrow> string \<Rightarrow> json_value \<Rightarrow> json_value" where
  "get_or (JDict d) key dflt = (case map_of d key of Some v \<Rightarrow> v | None \<Rightarrow> dflt)"
| "get_or v key dflt = dflt"

text \<open>
  The exceptions of the modelled code. \<^verbatim>\<open>create_table\<close> can raise \<^verbatim>\<open>IndexError\<close>.
  \<^verbatim>\<open>json.loads\<close> raises \<^verbatim>\<open>JSONDecodeError\<close> on text that is not JSON, and can raise a plain
  \<^verbatim>\<open>ValueError\<close> (an integer literal beyond the digit limit) or \<^verbatim>\<open>RecursionError\<close> (nesting
  too deep); \<^verbatim>\<open>from_json\<close> catches only the first.
\<close>

datatype py_error = IndexError | JSONDecodeError | ValueError | RecursionError

text \<open>
  The standard library is not part of the repository. What the toolkit calls of it is a
  parameter of the model:
  \<^item> \<^verbatim>\<open>json.loads\<close>, which returns the parsed value or raises;
  \<^item> \<^verbatim>\<open>json.dumps(v, indent=2)\<close>;
  \<^item> \<^verbatim>\<open>str\<close> of a float, a list or a dictionary (\<^verbatim>\<open>str\<close> of the other values is
    written out below);
  \<^item> the order in which \<^verbatim>\<open>list(s)\<close> enumerates a set \<open>s\<close> of strings. The order
    follows the strings' hashes, which differ from one interpreter run to the next; the
    function receives the members in the order they were added.
\<close>

record pylib =
  json_loads :: "string \<Rightarrow> py_error + json_value"
  json_dumps_indent2 :: "json_value \<Rightarrow> string"
  str_other :: "json_value \<Rightarrow> string"
  set_iteration :: "string list \<Rightarrow> string list"

text \<open>Decimal digits of a natural number and of an integer: \<^verbatim>\<open>str(n)\<close>.\<close>

fun str_nat :: "nat \<Rightarrow> string" where
  "str_nat n =
     (if n < 10 then [''0123456789'' ! n]
      else str_nat (n div 10) @ [''0123456789'' ! (n mod 10)])"

declare str_nat.simps [simp del]

definition str_int :: "int \<Rightarrow> string" where
  "str_int i = (if i < 0 then ''-'' @ str_nat (nat (- i)) else str_nat (nat i))"

fun py_str :: "pylib \<Rightarrow> json_value \<Rightarrow> string" where
  "py_str lib (JStr s) = s"
| "py_str lib JNull = ''None''"
| "py_str lib (JBool b) = (if b then ''True'' else ''False'')"
| "py_str lib (JInt i) = str_int i"
| "py_str lib v = str_other lib v"

text \<open>
  A set of strings under construction: its members in the order they were added.
  \<^verbatim>\<open>s.update(ks)\<close> adds the members of \<open>ks\<close> that are not in the set yet.
\<close>

definition set_add :: "string list \<Rightarrow> string \<Rightarrow> string list" where
  "set_add s k = (if k \<in> set s then s else s @ [k])"

definition set_update :: "string list \<Rightarrow> string list \<Rightarrow> string list" where
  "set_update s ks = foldl set_add s ks"

section \<open>Data connector (\<^verbatim>\<open>core/data_connector.py\<close>)\<close>

definition create_fact_set :: "(string \<times> string) list \<Rightarrow> element" where
  "create_fact_set facts = FactSet (map (\<lambda>(t, v). \<lparr>title = t, val = v\<rparr>) facts) None"

text \<open>The bullet prefix, as the bytes of the source's string literal, and a space.\<close>

definition bullet_prefix :: string where
  "bullet_prefix = [CHR 0xC3, CHR 0xA2, CHR 0xE2, CHR 0x82, CHR 0xAC, CHR 0xC2, CHR 0xA2, CHR 0x20]"

fun create_list_from :: "nat \<Rightarrow> string list \<Rightarrow> bool \<Rightarrow> element list" where
  "create_list_from i [] is_numbered = []"
| "create_list_from i (item # items) is_numbered =
     (let prefix = (if is_numbered then str_nat i @ ''. '' else bullet_prefix)
      in TextBlock \<lparr>text = prefix @ item, size_tb = None, weight = None, color = None,
            wrap = Some True, is_subtle = None, id_tb = None\<rparr>
         # create_list_from (Suc i) items is_numbered)"

definition create_list :: "string list \<Rightarrow> bool \<Rightarrow> element list" where
  "create_list items is_numbered = create_list_from 1 items is_numbered"

text \<open>
  \<^verbatim>\<open>create_table\<close>. The header loop reads \<^verbatim>\<open>column_widths[i]\<close> for every header and
  raises \<^verbatim>\<open>IndexError\<close> when the widths are fewer than the headers; the cell loop
  guards the same read with \<^verbatim>\<open>col_idx < len(column_widths)\<close>.
\<close>

fun header_columns :: "width list \<Rightarrow> nat \<Rightarrow> string list \<Rightarrow> py_error + column list" where
  "header_columns column_widths i [] = Inr []"
| "header_columns column_widths i (header # headers) =
     (if i < length column_widths
      then (case header_columns column_widths (Suc i) headers of
              Inl e \<Rightarrow> Inl e
            | Inr cols \<Rightarrow>
                Inr (Column [create_text header False (Some FontWeight_BOLDER) None]
                       (column_defaults\<lparr>width_col := Some (column_widths ! i)\<rparr>) # cols))
      else Inl IndexError)"

fun row_columns :: "width list \<Rightarrow> nat \<Rightarrow> string list \<Rightarrow> column list" where
  "row_columns column_widths col_idx [] = []"
| "row_columns column_widths col_idx (cell # cells) =
     (if col_idx < length column_widths
      then Column [create_text cell False None None]
             (column_defaults\<lparr>width_col := Some (column_widths ! col_idx)\<rparr>)
           # row_columns column_widths (Suc col_idx) cells
      else row_columns column_widths (Suc col_idx) cells)"

fun data_rows :: "width list \<Rightarrow> bool \<Rightarrow> nat \<Rightarrow> string list list \<Rightarrow> element list" where
  "data_rows column_widths alternate_row_style row_idx [] = []"
| "data_rows column_widths alternate_row_style row_idx (row # rows) =
     (let row_cols = row_columns column_widths 0 row;
          st = (if alternate_row_style \<and> row_idx mod 2 = 1
                then Some ContainerStyle_ACCENT else None)
      in Container [ColumnSet row_cols column_set_defaults] (container_defaults\<lparr>style := st\<rparr>)
         # data_rows column_widths alternate_row_style (Suc row_idx) rows)"

definition widths_or_equal :: "width list option \<Rightarrow> string list \<Rightarrow> width list" where
  "widths_or_equal column_widths headers =
     (case column_widths of
        None \<Rightarrow> replicate (length headers) (WidthInt 1)
      | Some ws \<Rightarrow> ws)"

definition create_table ::
  "string list \<Rightarrow> string list list \<Rightarrow> width list option \<Rightarrow> bool \<Rightarrow> bool
     \<Rightarrow> py_error + element list" where
  "create_table headers rows column_widths has_header_row alternate_row_style =
     (let ws = widths_or_equal column_widths headers
      in case (if has_header_row
               then (case header_columns ws 0 headers of
                       Inl e \<Rightarrow> Inl e
                     | Inr hcols \<Rightarrow>
                         Inr [Container [ColumnSet hcols column_set_defaults]
                                (container_defaults\<lparr>style := Some ContainerStyle_EMPHASIS,
                                   separator := Some True\<rparr>)])
               else Inr []) of
           Inl e \<Rightarrow> Inl e
         | Inr table_elements \<Rightarrow>
             Inr (table_elements @ data_rows ws alternate_row_style 0 rows))"

text \<open>
  \<^verbatim>\<open>from_json\<close>: the keys collected into a set, the set listed, one row per record.
\<close>

definition all_keys_of :: "json_value list \<Rightarrow> string list" where
  "all_keys_of data = foldl (\<lambda>all_keys item. set_update all_keys (keys item)) [] data"

definition table_headers :: "pylib \<Rightarrow> json_value list \<Rightarrow> string list" where
  "table_headers lib data = set_iteration lib (all_keys_of data)"

definition table_rows :: "pylib \<Rightarrow> string list \<Rightarrow> json_value list \<Rightarrow> string list list" where
  "table_rows lib headers data =
     map (\<lambda>item. map (\<lambda>key. py_str lib (get_or item key (JStr []))) headers) data"

text \<open>
  The first step of \<^verbatim>\<open>from_json\<close>: text is parsed, any other value is taken as it is. The
  result is the value of \<^verbatim>\<open>data\<close>, or the exception of \<^verbatim>\<open>json.loads\<close>.
\<close>

definition parse_input :: "pylib \<Rightarrow> json_value \<Rightarrow> py_error + json_value" where
  "parse_input lib json_data =
     (case json_data of
        JStr s \<Rightarrow> json_loads lib s
      | _ \<Rightarrow> Inr json_data)"

definition elements_of :: "pylib \<Rightarrow> json_value \<Rightarrow> py_error + element list" where
  "elements_of lib data =
     (case data of
        JDict d \<Rightarrow>
          Inr [create_fact_set
                 (map (\<lambda>(k, v). (k, if \<not> (is_dict v \<or> is_list v) then py_str lib v
                                     else json_dumps_indent2 lib v)) d)]
      | JList items \<Rightarrow>
          if items \<noteq> [] \<and> list_all is_dict items
          then (let headers = table_headers lib items;
                    rows = table_rows lib headers items
                in create_table headers rows None True True)
          else Inr (create_list (map (py_str lib) items) False)
      | _ \<Rightarrow> Inr [])"

text \<open>
  \<^verbatim>\<open>from_json\<close>. Only \<^verbatim>\<open>JSONDecodeError\<close> is caught and answered with the error element;
  any other exception of the parse leaves the function.
\<close>

definition from_json :: "pylib \<Rightarrow> json_value \<Rightarrow> py_error + element list" where
  "from_json lib json_data =
     (case parse_input lib json_data of
        Inl e \<Rightarrow>
          if e = JSONDecodeError
          then Inr [create_text ''Invalid JSON data'' False None (Some Colors_ATTENTION)]
          else Inl e
      | Inr data \<Rightarrow> elements_of lib data)"

section \<open>Python floats\<close>

text \<open>
  A Python \<^verbatim>\<open>float\<close> is an IEEE 754 binary64 number; a finite one is a rational, and
  floats compare as those rationals do. An arithmetic operation returns the exact result
  rounded to the nearest binary64 number, ties to the even significand
  (\<open>float_round\<close>; 53 significant bits, exponents from -1022 on; overflow to infinity is
  not modelled, a card's size in KB is far below it). A literal such as \<^verbatim>\<open>0.7\<close> is the
  rounded decimal.
\<close>

definition pow2 :: "int \<Rightarrow> rat" where
  "pow2 k = (if 0 \<le> k then 2 ^ nat k else 1 / 2 ^ nat (- k))"

fun bit_length :: "nat \<Rightarrow> nat" where
  "bit_length n = (if n = 0 then 0 else Suc (bit_length (n div 2)))"

declare bit_length.simps [simp del]

text \<open>The exponent \<open>e\<close> with \<open>2 ^ e \<le> x < 2 ^ (e + 1)\<close>, for \<open>x > 0\<close>.\<close>

definition floor_log2 :: "rat \<Rightarrow> int" where
  "floor_log2 x =
     (if 1 \<le> x then int (bit_length (nat \<lfloor>x\<rfloor>)) - 1
      else - int (bit_length (nat (\<lceil>1 / x\<rceil> - 1))))"

definition round_half_even :: "rat \<Rightarrow> int" where
  "round_half_even x =
     (let f = \<lfloor>x\<rfloor>; r = x - of_int f
      in if r < 1 / 2 then f
         else if 1 / 2 < r then f + 1
         else if even f then f else f + 1)"

definition float_round :: "rat \<Rightarrow> rat" where
  "float_round x =
     (if x = 0 then 0
      else (let a = \<bar>x\<bar>;
                e = max (floor_log2 a) (- 1022);
                ulp = pow2 (e - 52);
                m = round_half_even (a / ulp)
            in sgn x * of_int m * ulp))"

definition float_mul :: "rat \<Rightarrow> rat \<Rightarrow> rat" where
  "float_mul a b = float_round (a * b)"

definition float_div :: "rat \<Rightarrow> rat \<Rightarrow> rat" where
  "float_div a b = float_round (a / b)"

text \<open>
  The format specification \<^verbatim>\<open>.Nf\<close>: the value rounded to \<open>N\<close> decimals (ties to even),
  with a sign, the integer digits, a point and exactly \<open>N\<close> decimals.
\<close>

definition format_fixed :: "nat \<Rightarrow> rat \<Rightarrow> string" where
  "format_fixed d x =
     (let n = nat (round_half_even (\<bar>x\<bar> * 10 ^ d));
          frac = str_nat (n mod 10 ^ d)
      in (if x < 0 then ''-'' else []) @ str_nat (n div 10 ^ d)
         @ (if d = 0 then [] else ''.'' @ replicate (d - length frac) (CHR ''0'') @ frac))"

section \<open>Cards and the validator of the adaptive-cards library\<close>

datatype action =
    ActionOpenUrl string string
  | ActionSubmit string json_value "string option"

record adaptive_card =
  version :: string
  body :: "element list option"
  actions :: "action list option"

text \<open>\<^verbatim>\<open>card.body or []\<close>.\<close>

definition body_or_empty :: "adaptive_card \<Rightarrow> element list" where
  "body_or_empty crd = (case body crd of None \<Rightarrow> [] | Some b \<Rightarrow> b)"

text \<open>
  The attributes the validation utility looks for on a body element: \<^verbatim>\<open>item.id\<close>,
  \<^verbatim>\<open>hasattr(item, "url")\<close> (an image) and \<^verbatim>\<open>hasattr(item, "items")\<close> (a container).
\<close>

fun element_id :: "element \<Rightarrow> string option" where
  "element_id (TextBlock t) = id_tb t"
| "element_id (Image i) = id_img i"
| "element_id (Container its f) = id_c f"
| "element_id (ColumnSet cols f) = id_cs f"
| "element_id (FactSet fs i) = i"
| "element_id (InputText i) = Some (id_it i)"
| "element_id (InputDate i) = Some (id_idt i)"
| "element_id (InputChoiceSet i) = Some (id_ics i)"

definition truthy_str :: "string option \<Rightarrow> bool" where
  "truthy_str s = (case s of None \<Rightarrow> False | Some v \<Rightarrow> v \<noteq> [])"

fun has_url :: "element \<Rightarrow> bool" where
  "has_url (Image i) = True"
| "has_url e = False"

fun has_items :: "element \<Rightarrow> bool" where
  "has_items (Container its f) = True"
| "has_items e = False"

text \<open>
  The elements of a document in the specification's sense, for the properties that speak
  of any element: the body's elements and, below them, the items of every container and
  of every column of a column set.
\<close>

fun nested_elements :: "element \<Rightarrow> element list"
  and column_elements :: "column \<Rightarrow> element list" where
  "nested_elements (Container its f) = Container its f # concat (map nested_elements its)"
| "nested_elements (ColumnSet cols f) = ColumnSet cols f # concat (map column_elements cols)"
| "nested_elements (TextBlock t) = [TextBlock t]"
| "nested_elements (Image i) = [Image i]"
| "nested_elements (FactSet fs i) = [FactSet fs i]"
| "nested_elements (InputText i) = [InputText i]"
| "nested_elements (InputDate i) = [InputDate i]"
| "nested_elements (InputChoiceSet i) = [InputChoiceSet i]"
| "column_elements (Column its f) = concat (map nested_elements its)"

definition document_elements :: "adaptive_card \<Rightarrow> element list" where
  "document_elements crd = concat (map nested_elements (body_or_empty crd))"

datatype element_kind =
  KindText | KindImage | KindContainer | KindColumnSet | KindFactList | KindInput

fun kind_of :: "element \<Rightarrow> element_kind" where
  "kind_of (TextBlock t) = KindText"
| "kind_of (Image i) = KindImage"
| "kind_of (Container its f) = KindContainer"
| "kind_of (ColumnSet cols f) = KindColumnSet"
| "kind_of (FactSet fs i) = KindFactList"
| "kind_of (InputText i) = KindInput"
| "kind_of (InputDate i) = KindInput"
| "kind_of (InputChoiceSet i) = KindInput"

datatype validation_failure = EMPTY_CARD | INVALID_FIELD_VERSION | SIZE_LIMIT_EXCEEDED

datatype result = SUCCESS | FAILURE

record finding =
  failure :: validation_failure

text \<open>
  Modelled from the spec: the card validator (\<^verbatim>\<open>adaptive_cards.validation.CardValidator\<close>,
  made by \<^verbatim>\<open>CardValidatorFactory.create_validator_microsoft_teams\<close>) belongs to the
  third-party library and is not in the repository. Section 4.4 of the specification gives
  its three ordered checks, over nothing but the Document and the profile:
  \<^enum> the body is empty: \<^verbatim>\<open>EMPTY_CARD\<close>;
  \<^enum> an element requires a schema version greater than the Document's:
    \<^verbatim>\<open>INVALID_FIELD_VERSION\<close>, one entry per offending element kind;
  \<^enum> the size of the serialized Document in KB exceeds the profile's limit:
    \<^verbatim>\<open>SIZE_LIMIT_EXCEEDED\<close>;
  the result is a success when no check failed. The validator object keeps the findings
  of its last run for \<^verbatim>\<open>details()\<close>. What the specification leaves to the library is a
  parameter: the size in KB of the serialized Document, the schema rule (whether an
  element kind requires a newer version than a given one) and the text value of a
  failure kind. The Teams profile has the limit 28.
\<close>

record validator_lib =
  serialized_size_kb :: "adaptive_card \<Rightarrow> rat"
  requires_newer_schema :: "element_kind \<Rightarrow> string \<Rightarrow> bool"
  failure_value :: "validation_failure \<Rightarrow> string"

text \<open>
  Modelled from the spec: the state of the validator object, which is the profile's size
  limit and the findings of the last run.
\<close>

record card_validator =
  size_limit_kb :: rat
  findings :: "finding list"

text \<open>
  Modelled from the spec: the factory's Teams validator, with the Teams size limit of 28 KB
  and no findings yet.
\<close>

definition create_validator_microsoft_teams :: card_validator where
  "create_validator_microsoft_teams = \<lparr>size_limit_kb = 28, findings = []\<rparr>"

text \<open>Modelled from the spec: check 1, an empty body is the failure \<^verbatim>\<open>EMPTY_CARD\<close>.\<close>

definition structural_check :: "adaptive_card \<Rightarrow> finding list" where
  "structural_check crd =
     (if body_or_empty crd = [] then [\<lparr>failure = EMPTY_CARD\<rparr>] else [])"

text \<open>
  Modelled from the spec: check 2, one \<^verbatim>\<open>INVALID_FIELD_VERSION\<close> for each kind of element
  in the body that requires a newer schema version than the card's.
\<close>

definition schema_check :: "validator_lib \<Rightarrow> adaptive_card \<Rightarrow> finding list" where
  "schema_check lib crd =
     map (\<lambda>k. \<lparr>failure = INVALID_FIELD_VERSION\<rparr>)
       (remdups (map kind_of
          (filter (\<lambda>e. requires_newer_schema lib (kind_of e) (version crd))
             (body_or_empty crd))))"

text \<open>
  Modelled from the spec: check 3, a size in KB above the profile's limit is the failure
  \<^verbatim>\<open>SIZE_LIMIT_EXCEEDED\<close>.
\<close>

definition size_check :: "validator_lib \<Rightarrow> card_validator \<Rightarrow> adaptive_card \<Rightarrow> finding list" where
  "size_check lib v crd =
     (if size_limit_kb v < serialized_size_kb lib crd
      then [\<lparr>failure = SIZE_LIMIT_EXCEEDED\<rparr>] else [])"

text \<open>
  Modelled from the spec: \<^verbatim>\<open>validator.validate(card)\<close> runs the three checks in order,
  keeps their findings in place of the earlier ones, and succeeds when there is none.
\<close>

definition validator_validate ::
  "validator_lib \<Rightarrow> card_validator \<Rightarrow> adaptive_card \<Rightarrow> result \<times> card_validator" where
  "validator_validate lib v crd =
     (let fs = structural_check crd @ schema_check lib crd @ size_check lib v crd
      in (if fs = [] then SUCCESS else FAILURE, v\<lparr>findings := fs\<rparr>))"

text \<open>
  Modelled from the spec: \<^verbatim>\<open>validator.card_size(card)\<close>, the size in KB of the serialized
  card.
\<close>

definition validator_card_size :: "validator_lib \<Rightarrow> card_validator \<Rightarrow> adaptive_card \<Rightarrow> rat" where
  "validator_card_size lib v crd = serialized_size_kb lib crd"

text \<open>Modelled from the spec: \<^verbatim>\<open>validator.details()\<close>, the findings of the last run.\<close>

definition validator_details :: "card_validator \<Rightarrow> finding list" where
  "validator_details v = findings v"

section \<open>Validation utility (\<^verbatim>\<open>core/validation_utility.py\<close>)\<close>

text \<open>
  \<^verbatim>\<open>str.lower\<close>, on the ASCII letters. No character outside ASCII has a lower case among
  the letters of \<^verbatim>\<open>teams\<close>, so the comparison with \<^verbatim>\<open>"teams"\<close> is decided here.
\<close>

definition lower_char :: "char \<Rightarrow> char" where
  "lower_char c =
     (case map_of (zip ''ABCDEFGHIJKLMNOPQRSTUVWXYZ'' ''abcdefghijklmnopqrstuvwxyz'') c of
        Some l \<Rightarrow> l
      | None \<Rightarrow> c)"

definition lower :: "string \<Rightarrow> string" where
  "lower s = map lower_char s"

record validation_utility =
  target :: string
  validator :: card_validator

text \<open>
  The constructor. Both branches of the source build the Teams validator; the second one
  under the comment \<^verbatim>\<open>Use Teams validator as default\<close>. The source raises nowhere.
\<close>

definition ValidationUtility :: "string \<Rightarrow> py_error + validation_utility" where
  "ValidationUtility tgt =
     (if lower tgt = ''teams''
      then Inr \<lparr>target = tgt, validator = create_validator_microsoft_teams\<rparr>
      else Inr \<lparr>target = tgt, validator = create_validator_microsoft_teams\<rparr>)"

record response =
  valid :: bool
  details :: "string list"
  size_kb :: rat
  size_limit :: int
  warnings :: "string list"
  suggestions :: "string list"

text \<open>\<^verbatim>\<open>28 if self.target.lower() == "teams" else 40\<close>.\<close>

definition target_size_limit :: "validation_utility \<Rightarrow> int" where
  "target_size_limit self = (if lower (target self) = ''teams'' then 28 else 40)"

definition empty_card_suggestion :: string where
  "empty_card_suggestion = ''Card body is empty. Add at least one element to the card.''"

definition version_suggestion :: "string \<Rightarrow> string" where
  "version_suggestion ver =
     ''Some elements or fields require a newer schema version than '' @ [CHR 0x27] @ ver
     @ [CHR 0x27] @ ''. ''
     @ ''Consider upgrading the card version or removing incompatible elements.''"

definition size_suggestions :: "string list" where
  "size_suggestions =
     [''Card size exceeds the limit for the target platform.'',
      ''Consider reducing the number of elements or simplifying complex elements.'',
      ''Minimize the use of images or use lower resolution images.'',
      ''Break content into multiple smaller cards if possible.'']"

text \<open>The body of the loop over the findings: what one finding adds to the suggestions.\<close>

definition finding_suggestions :: "adaptive_card \<Rightarrow> finding \<Rightarrow> string list" where
  "finding_suggestions crd f =
     (if failure f = EMPTY_CARD then [empty_card_suggestion]
      else if failure f = INVALID_FIELD_VERSION then [version_suggestion (version crd)]
      else if failure f = SIZE_LIMIT_EXCEEDED then size_suggestions
      else [])"

definition approaching_warning :: "rat \<Rightarrow> int \<Rightarrow> string" where
  "approaching_warning card_size limit =
     ''Card size ('' @ format_fixed 2 card_size @ ''KB) is approaching the limit (''
     @ str_int limit @ ''KB).''"

definition optimize_suggestion :: string where
  "optimize_suggestion = ''Consider optimizing the card to reduce its size.''"

definition no_ids_warning :: string where
  "no_ids_warning = ''No elements have IDs, which may limit interactivity and accessibility.''"

definition validate ::
  "validator_lib \<Rightarrow> validation_utility \<Rightarrow> adaptive_card \<Rightarrow> response \<times> validation_utility" where
  "validate lib self crd =
     (let (res, v) = validator_validate lib (validator self) crd;
          card_size = validator_card_size lib v crd;
          dets = validator_details v;
          r0 = \<lparr>valid = (res = SUCCESS),
                details = map (\<lambda>f. failure_value lib (failure f)) dets,
                size_kb = card_size,
                size_limit = target_size_limit self,
                warnings = [],
                suggestions = []\<rparr>;
          r1 = foldl (\<lambda>r f. r\<lparr>suggestions := suggestions r @ finding_suggestions crd f\<rparr>)
                 r0 dets;
          limit = size_limit r1;
          r2 = (if float_mul (of_int limit) (float_round (8 / 10)) < card_size
                   \<and> card_size \<le> of_int limit
                then r1\<lparr>warnings := warnings r1 @ [approaching_warning card_size limit],
                       suggestions := suggestions r1 @ [optimize_suggestion]\<rparr>
                else r1);
          r3 = (if \<not> list_ex (\<lambda>item. truthy_str (element_id item)) (body_or_empty crd)
                then r2\<lparr>warnings := warnings r2 @ [no_ids_warning]\<rparr>
                else r2)
      in (r3, self\<lparr>validator := v\<rparr>))"

definition get_size :: "validator_lib \<Rightarrow> validation_utility \<Rightarrow> adaptive_card \<Rightarrow> rat" where
  "get_size lib self crd = validator_card_size lib (validator self) crd"

definition percent_message :: "rat \<Rightarrow> int \<Rightarrow> string" where
  "percent_message card_size limit =
     ''Card size ('' @ format_fixed 2 card_size @ ''KB) is ''
     @ format_fixed 1 (float_mul (float_div card_size (of_int limit)) 100)
     @ ''% of the limit.''"

definition reduce_elements_suggestion :: string where
  "reduce_elements_suggestion = ''Consider reducing the number of elements in the card.''"

definition images_suggestion :: "nat \<Rightarrow> string" where
  "images_suggestion image_count =
     ''Card contains '' @ str_nat image_count
     @ '' images. Consider reducing image count or size.''"

definition containers_suggestion :: "nat \<Rightarrow> string" where
  "containers_suggestion container_count =
     ''Card contains '' @ str_nat container_count
     @ '' containers. Consider simplifying the structure.''"

definition suggest_optimizations ::
  "validator_lib \<Rightarrow> validation_utility \<Rightarrow> adaptive_card \<Rightarrow> string list" where
  "suggest_optimizations lib self crd =
     (let card_size = validator_card_size lib (validator self) crd;
          limit = target_size_limit self
      in if float_mul (of_int limit) (float_round (7 / 10)) < card_size
         then (let image_count = length (filter has_url (body_or_empty crd));
                   container_count = length (filter has_items (body_or_empty crd))
               in [percent_message card_size limit]
                  @ (if 10 < length (body_or_empty crd) then [reduce_elements_suggestion]
                     else [])
                  @ (if 0 < image_count then [images_suggestion image_count] else [])
                  @ (if 3 < container_count then [containers_suggestion container_count]
                     else []))
         else [])"


section \<open>Shapes of the table's containers\<close>

text \<open>
  Names for the objects \<^verbatim>\<open>create_table\<close> builds, used to state its properties: the
  column of a cell and of a header, the container of a data row and of the header row.
\<close>

definition cell_column :: "string \<Rightarrow> width \<Rightarrow> column" where
  "cell_column cell w =
     Column [create_text cell False None None] (column_defaults\<lparr>width_col := Some w\<rparr>)"

definition header_column :: "string \<Rightarrow> width \<Rightarrow> column" where
  "header_column header w =
     Column [create_text header False (Some FontWeight_BOLDER) None]
       (column_defaults\<lparr>width_col := Some w\<rparr>)"

definition row_container :: "width list \<Rightarrow> bool \<Rightarrow> nat \<Rightarrow> string list \<Rightarrow> element" where
  "row_container ws alt k row =
     Container [ColumnSet (map2 cell_column row ws) column_set_defaults]
       (container_defaults\<lparr>style := (if alt \<and> odd k then Some ContainerStyle_ACCENT else None)\<rparr>)"

definition header_container :: "width list \<Rightarrow> string list \<Rightarrow> element" where
  "header_container ws headers =
     Container [ColumnSet (map2 header_column headers ws) column_set_defaults]
       (container_defaults\<lparr>style := Some ContainerStyle_EMPHASIS, separator := Some True\<rparr>)"


section \<open>The header order of the specification\<close>



section \<open>The size tier of the validation report\<close>

text \<open>
  The test of the size warning in \<^verbatim>\<open>validate\<close>:
  \<^verbatim>\<open>card_size > size_limit * 0.8 and card_size <= size_limit\<close>.
\<close>

definition approaching :: "rat \<Rightarrow> int \<Rightarrow> bool" where
  "approaching card_size limit =
     (float_mul (of_int limit) (float_round (8 / 10)) < card_size \<and> card_size \<le> of_int limit)"


section \<open>Properties of the element factory and the layout helper\<close>

text \<open>
  Claim C9. For every text and every integer level, \<^verbatim>\<open>create_heading\<close> returns a text
  block whose size is extra-large for level 1, large for level 2, medium for level 3 and
  medium for every other level; the block is always bold and always word-wrapped.
\<close>

theorem create_heading_sizes:
  "create_heading txt level =
     TextBlock \<lparr>text = txt,
       size_tb = Some (if level = 1 then FontSize_EXTRA_LARGE
                       else if level = 2 then FontSize_LARGE
                       else if level = 3 then FontSize_MEDIUM
                       else FontSize_MEDIUM),
       weight = Some FontWeight_BOLDER, color = None, wrap = Some True,
       is_subtle = None, id_tb = None\<rparr>"
  by (simp add: create_heading_def dict_get_def sizes_def)

theorem create_heading_sizes_witness:
  "create_heading ''Title'' 1 =
     TextBlock \<lparr>text = ''Title'', size_tb = Some FontSize_EXTRA_LARGE,
       weight = Some FontWeight_BOLDER, color = None, wrap = Some True,
       is_subtle = None, id_tb = None\<rparr>
   \<and> create_heading ''Title'' 7 =
     TextBlock \<lparr>text = ''Title'', size_tb = Some FontSize_MEDIUM,
       weight = Some FontWeight_BOLDER, color = None, wrap = Some True,
       is_subtle = None, id_tb = None\<rparr>"
  using create_heading_sizes [of "''Title''" 1] create_heading_sizes [of "''Title''" 7]
  by simp

text \<open>
  Claim C8. For all header, body and footer item lists,
  \<^verbatim>\<open>create_header_body_footer_layout\<close> returns the header container with
  \<^verbatim>\<open>bleed\<close> true, then the body container with medium spacing, and a third container
  holding the footer items, with medium spacing and a separator, exactly when footer
  items are given and are not empty.
\<close>

theorem header_body_footer_containers:
  "create_header_body_footer_layout header_items body_items footer_items header_style
       body_style footer_style =
     [Container header_items
        \<lparr>style = header_style, separator = None, spacing_c = None, bleed = Some True,
         id_c = None\<rparr>,
      Container body_items
        \<lparr>style = body_style, separator = None, spacing_c = Some Spacing_MEDIUM,
         bleed = None, id_c = None\<rparr>]
     @ (case footer_items of
          None \<Rightarrow> []
        | Some [] \<Rightarrow> []
        | Some (f # fs) \<Rightarrow>
            [Container (f # fs)
               \<lparr>style = footer_style, separator = Some True,
                spacing_c = Some Spacing_MEDIUM, bleed = None, id_c = None\<rparr>])"
  by (simp add: create_header_body_footer_layout_def truthy_list_def container_defaults_def
      split: option.split list.split)

theorem header_body_footer_containers_witness:
  "length (create_header_body_footer_layout [create_heading ''H'' 1] [] (Some [])
      (Some ContainerStyle_EMPHASIS) None (Some ContainerStyle_ACCENT)) = 2
   \<and> length (create_header_body_footer_layout [create_heading ''H'' 1] []
      (Some [create_heading ''F'' 3])
      (Some ContainerStyle_EMPHASIS) None (Some ContainerStyle_ACCENT)) = 3"
  using header_body_footer_containers [of "[create_heading ''H'' 1]" "[]" "Some []"
      "Some ContainerStyle_EMPHASIS" None "Some ContainerStyle_ACCENT"]
    header_body_footer_containers [of "[create_heading ''H'' 1]" "[]"
      "Some [create_heading ''F'' 3]"
      "Some ContainerStyle_EMPHASIS" None "Some ContainerStyle_ACCENT"]
  by simp

section \<open>Properties of the data connector's table\<close>

lemma row_columns_drop:
  "row_columns ws i cells = map2 cell_column cells (drop i ws)"
proof (induction cells arbitrary: i)
  case Nil
  then show ?case by simp
next
  case (Cons cell cells)
  show ?case
  proof (cases "i < length ws")
    case True
    then have "drop i ws = ws ! i # drop (Suc i) ws"
      by (simp add: Cons_nth_drop_Suc)
    with True Cons show ?thesis by (simp add: cell_column_def)
  next
    case False
    with Cons show ?thesis by simp
  qed
qed

lemma row_columns_zip: "row_columns ws 0 cells = map2 cell_column cells ws"
  by (simp add: row_columns_drop)

lemma header_columns_ok:
  "i + length hs \<le> length ws \<Longrightarrow>
   header_columns ws i hs = Inr (map2 header_column hs (drop i ws))"
proof (induction hs arbitrary: i)
  case Nil
  then show ?case by simp
next
  case (Cons h hs)
  then have lt: "i < length ws" by simp
  then have "drop i ws = ws ! i # drop (Suc i) ws"
    by (simp add: Cons_nth_drop_Suc)
  moreover from Cons have "header_columns ws (Suc i) hs = Inr (map2 header_column hs (drop (Suc i) ws))"
    by simp
  ultimately show ?case using lt by (simp add: header_column_def)
qed

lemma header_columns_error:
  "i \<le> length ws \<Longrightarrow> length ws < i + length hs \<Longrightarrow>
   header_columns ws i hs = Inl IndexError"
proof (induction hs arbitrary: i)
  case Nil
  then show ?case by simp
next
  case (Cons h hs)
  show ?case
  proof (cases "i < length ws")
    case True
    with Cons have "header_columns ws (Suc i) hs = Inl IndexError" by simp
    with True show ?thesis by simp
  next
    case False
    then show ?thesis by simp
  qed
qed

lemma data_rows_length: "length (data_rows ws alt i rows) = length rows"
  by (induction rows arbitrary: i) (simp_all add: Let_def)

lemma data_rows_nth:
  "k < length rows \<Longrightarrow> data_rows ws alt i rows ! k = row_container ws alt (i + k) (rows ! k)"
proof (induction rows arbitrary: i k)
  case Nil
  then show ?case by simp
next
  case (Cons row rows)
  show ?case
  proof (cases k)
    case 0
    then show ?thesis
      by (simp add: Let_def row_container_def row_columns_zip odd_iff_mod_2_eq_one)
  next
    case (Suc j)
    with Cons show ?thesis by (simp add: Let_def)
  qed
qed

lemma create_table_eq:
  "create_table headers rows column_widths has_header_row alt =
     (let ws = widths_or_equal column_widths headers
      in if has_header_row \<and> length ws < length headers then Inl IndexError
         else Inr ((if has_header_row then [header_container ws headers] else [])
                   @ data_rows ws alt 0 rows))"
proof (cases "length (widths_or_equal column_widths headers) < length headers")
  case True
  then show ?thesis
    by (simp add: create_table_def Let_def header_columns_error)
next
  case False
  then show ?thesis
    by (simp add: create_table_def Let_def header_columns_ok header_container_def)
qed

lemma widths_or_equal_None: "length (widths_or_equal None headers) = length headers"
  by (simp add: widths_or_equal_def)

text \<open>
  Claim C7. For every headers and rows given to \<^verbatim>\<open>create_table\<close> with
  \<^verbatim>\<open>alternate_row_style\<close> true, the container of the data row at 0-based index \<open>k\<close>
  has the accent style when \<open>k\<close> is odd and no style when \<open>k\<close> is even. The call
  returns whenever the header loop can read a width for every header, which the default
  widths always allow; the container of row \<open>k\<close> stands after the header container when
  there is one.
\<close>

theorem create_table_alternate_row_style:
  assumes "has_header_row \<longrightarrow> length headers \<le> length (widths_or_equal column_widths headers)"
  shows "\<exists>table. create_table headers rows column_widths has_header_row True = Inr table
           \<and> length table = (if has_header_row then 1 else 0) + length rows
           \<and> (\<forall>k < length rows. \<exists>its f.
                 table ! ((if has_header_row then 1 else 0) + k) = Container its f
                 \<and> style f = (if odd k then Some ContainerStyle_ACCENT else None))"
proof -
  let ?ws = "widths_or_equal column_widths headers"
  let ?hd = "if has_header_row then [header_container ?ws headers] else []"
  let ?table = "?hd @ data_rows ?ws True 0 rows"
  from assms have eq: "create_table headers rows column_widths has_header_row True = Inr ?table"
    by (auto simp add: create_table_eq Let_def)
  have len: "length ?table = (if has_header_row then 1 else 0) + length rows"
    by (simp add: data_rows_length)
  have row: "\<exists>its f. ?table ! ((if has_header_row then 1 else 0) + k) = Container its f
               \<and> style f = (if odd k then Some ContainerStyle_ACCENT else None)"
    if "k < length rows" for k
  proof -
    have "?table ! ((if has_header_row then 1 else 0) + k) = data_rows ?ws True 0 rows ! k"
      by (simp add: nth_append)
    also have "\<dots> = row_container ?ws True k (rows ! k)"
      using that by (simp add: data_rows_nth)
    finally show ?thesis
      by (simp add: row_container_def container_defaults_def)
  qed
  from eq len row show ?thesis by blast
qed

theorem create_table_alternate_row_style_witness:
  "\<exists>table. create_table [''Name''] [[''John''], [''Jane'']] None True True = Inr table
     \<and> length table = 3
     \<and> (\<exists>its f. table ! 1 = Container its f \<and> style f = None)
     \<and> (\<exists>its f. table ! 2 = Container its f \<and> style f = Some ContainerStyle_ACCENT)"
proof -
  have pre: "True \<longrightarrow> length [''Name''] \<le> length (widths_or_equal None [''Name''])"
    by (simp add: widths_or_equal_def)
  from create_table_alternate_row_style [OF pre, of "[[''John''], [''Jane'']]"]
  obtain table where t: "create_table [''Name''] [[''John''], [''Jane'']] None True True = Inr table"
    and len: "length table = 3"
    and rows: "\<forall>k < 2. \<exists>its f. table ! (1 + k) = Container its f
                 \<and> style f = (if odd k then Some ContainerStyle_ACCENT else None)"
    by auto
  from rows have "\<exists>its f. table ! (1 + 0) = Container its f
      \<and> style f = (if odd (0::nat) then Some ContainerStyle_ACCENT else None)"
    by (rule allE [of _ 0]) simp
  moreover from rows have "\<exists>its f. table ! (1 + 1) = Container its f
      \<and> style f = (if odd (1::nat) then Some ContainerStyle_ACCENT else None)"
    by (rule allE [of _ 1]) simp
  ultimately show ?thesis using t len by (simp add: numeral_2_eq_2)
qed





section \<open>Properties of \<^verbatim>\<open>from_json\<close>\<close>












text \<open>
  \<^verbatim>\<open>from_json\<close> raises only on text, and then what \<^verbatim>\<open>json.loads\<close> raises other than
  \<^verbatim>\<open>JSONDecodeError\<close>: the table it builds uses the default widths.
\<close>

lemma elements_of_returns: "\<exists>els. elements_of lib d = Inr els"
  by (cases d) (auto simp: elements_of_def Let_def create_table_eq widths_or_equal_def)

lemma from_json_raises:
  assumes "from_json lib v = Inl e"
  shows "\<exists>s. v = JStr s \<and> json_loads lib s = Inl e \<and> e \<noteq> JSONDecodeError"
proof (cases "parse_input lib v")
  case (Inl e')
  with assms have e: "e' = e" "e \<noteq> JSONDecodeError"
    by (auto simp: from_json_def split: if_splits)
  from Inl obtain s where "v = JStr s" "json_loads lib s = Inl e'"
    by (cases v) (auto simp: parse_input_def)
  with e show ?thesis by blast
next
  case (Inr d)
  with assms elements_of_returns [of lib d] show ?thesis
    by (auto simp: from_json_def)
qed

section \<open>Properties of the validation utility\<close>




lemma validator_validate_findings:
  "validator_validate lib v crd =
     (if structural_check crd @ schema_check lib crd @ size_check lib v crd = []
      then SUCCESS else FAILURE,
      v\<lparr>findings := structural_check crd @ schema_check lib crd @ size_check lib v crd\<rparr>)"
  by (simp add: validator_validate_def Let_def)

lemma size_check_findings [simp]: "size_check lib (v\<lparr>findings := fs\<rparr>) crd = size_check lib v crd"
  by (simp add: size_check_def)

lemma validator_validate_again:
  "validator_validate lib (snd (validator_validate lib v crd)) crd = validator_validate lib v crd"
  by (simp add: validator_validate_findings)

lemma validate_state:
  "snd (validate lib self crd) =
     self\<lparr>validator := (validator self)
       \<lparr>findings := structural_check crd @ schema_check lib crd
          @ size_check lib (validator self) crd\<rparr>\<rparr>"
  by (simp add: validate_def Let_def validator_validate_findings split: prod.split)

lemma validate_again_state:
  "snd (validate lib (snd (validate lib self crd)) crd) = snd (validate lib self crd)"
  by (simp add: validate_def Let_def validator_validate_findings split: prod.split)

lemma validate_depends:
  "target self' = target self \<Longrightarrow>
   size_limit_kb (validator self') = size_limit_kb (validator self) \<Longrightarrow>
   fst (validate lib self' crd) = fst (validate lib self crd)"
  by (simp add: validate_def Let_def validator_validate_findings target_size_limit_def
      size_check_def validator_card_size_def validator_details_def split: prod.split)

lemma ValidationUtility_teams_limit:
  "ValidationUtility tgt = Inr self \<Longrightarrow> size_limit_kb (validator self) = 28"
  by (auto simp: ValidationUtility_def create_validator_microsoft_teams_def split: if_splits)

lemma validate_keeps_limit:
  "size_limit_kb (validator (snd (validate lib self crd))) = size_limit_kb (validator self)"
  by (simp add: validate_state)

lemma validate_keeps_target: "target (snd (validate lib self crd)) = target self"
  by (simp add: validate_state)

lemma warn_threshold_teams:
  "float_mul 28 (float_round (4 / 5)) = 6305039478318695 / 2 ^ 48"
  by code_simp

lemma warn_threshold_other: "float_mul 40 (float_round (4 / 5)) = 32"
  by code_simp

text \<open>
  Claim C4. \<^verbatim>\<open>validate\<close> is idempotent: a second call on the same instance and the same
  card returns the report of the first call (the same valid flag, details, size, size
  limit, warnings and suggestions), and leaves the instance as the first call left it.
\<close>

theorem validate_idempotent:
  "fst (validate lib (snd (validate lib self crd)) crd) = fst (validate lib self crd)
   \<and> snd (validate lib (snd (validate lib self crd)) crd) = snd (validate lib self crd)"
proof -
  have "fst (validate lib (snd (validate lib self crd)) crd) = fst (validate lib self crd)"
    by (rule validate_depends) (simp_all add: validate_state)
  then show ?thesis by (simp add: validate_again_state)
qed

theorem validate_idempotent_witness:
  "fst (validate
          \<lparr>serialized_size_kb = (\<lambda>c. 1), requires_newer_schema = (\<lambda>k v. False),
           failure_value = (\<lambda>f. if f = EMPTY_CARD then ''card body is empty'' else ''other'')\<rparr>
          (snd (validate
             \<lparr>serialized_size_kb = (\<lambda>c. 1), requires_newer_schema = (\<lambda>k v. False),
              failure_value = (\<lambda>f. if f = EMPTY_CARD then ''card body is empty'' else ''other'')\<rparr>
             \<lparr>target = ''teams'', validator = create_validator_microsoft_teams\<rparr>
             \<lparr>version = ''1.5'', body = Some [], actions = None\<rparr>))
          \<lparr>version = ''1.5'', body = Some [], actions = None\<rparr>)
     = \<lparr>valid = False, details = [''card body is empty''], size_kb = 1, size_limit = 28,
        warnings = [no_ids_warning], suggestions = [empty_card_suggestion]\<rparr>"
proof -
  let ?lib = "\<lparr>serialized_size_kb = (\<lambda>c. 1), requires_newer_schema = (\<lambda>k v. False),
           failure_value = (\<lambda>f. if f = EMPTY_CARD then ''card body is empty'' else ''other'')\<rparr>"
  let ?self = "\<lparr>target = ''teams'', validator = create_validator_microsoft_teams\<rparr>"
  let ?crd = "\<lparr>version = ''1.5'', body = Some [], actions = None\<rparr>"
  have first: "fst (validate ?lib ?self ?crd)
     = \<lparr>valid = False, details = [''card body is empty''], size_kb = 1, size_limit = 28,
        warnings = [no_ids_warning], suggestions = [empty_card_suggestion]\<rparr>"
    by (simp add: validate_def validator_validate_def structural_check_def schema_check_def
        size_check_def body_or_empty_def create_validator_microsoft_teams_def
        validator_card_size_def validator_details_def target_size_limit_def lower_def
        lower_char_def finding_suggestions_def warn_threshold_teams Let_def)
  from validate_idempotent [of ?lib ?self ?crd] first show ?thesis by simp
qed

lemma foldl_suggestions:
  "suggestions (foldl (\<lambda>r f. r\<lparr>suggestions := suggestions r @ g f\<rparr>) r0 fs)
     = suggestions r0 @ concat (map g fs)"
  by (induction fs arbitrary: r0) simp_all

lemma foldl_other_fields:
  "valid (foldl (\<lambda>r f. r\<lparr>suggestions := suggestions r @ g f\<rparr>) r0 fs) = valid r0"
  "details (foldl (\<lambda>r f. r\<lparr>suggestions := suggestions r @ g f\<rparr>) r0 fs) = details r0"
  "size_kb (foldl (\<lambda>r f. r\<lparr>suggestions := suggestions r @ g f\<rparr>) r0 fs) = size_kb r0"
  "size_limit (foldl (\<lambda>r f. r\<lparr>suggestions := suggestions r @ g f\<rparr>) r0 fs) = size_limit r0"
  "warnings (foldl (\<lambda>r f. r\<lparr>suggestions := suggestions r @ g f\<rparr>) r0 fs) = warnings r0"
  by (induction fs arbitrary: r0) simp_all

lemma validate_details:
  "details (fst (validate lib self crd)) =
     map (\<lambda>f. failure_value lib (failure f))
       (structural_check crd @ schema_check lib crd @ size_check lib (validator self) crd)"
  by (simp add: validate_def Let_def validator_validate_findings validator_details_def
      foldl_other_fields split: prod.split)

lemma validate_suggestions:
  "suggestions (fst (validate lib self crd)) =
     concat (map (finding_suggestions crd)
       (structural_check crd @ schema_check lib crd @ size_check lib (validator self) crd))
     @ (if approaching (serialized_size_kb lib crd) (target_size_limit self)
        then [optimize_suggestion] else [])"
  by (simp add: validate_def Let_def validator_validate_findings validator_details_def
      validator_card_size_def foldl_other_fields foldl_suggestions approaching_def
      split: prod.split)

lemma structural_suggestions:
  "concat (map (finding_suggestions crd) (structural_check crd))
     = (if body_or_empty crd = [] then [empty_card_suggestion] else [])"
  by (simp add: structural_check_def finding_suggestions_def)

lemma schema_suggestions:
  "concat (map (finding_suggestions crd) (schema_check lib crd))
     = replicate (length (schema_check lib crd)) (version_suggestion (version crd))"
  by (simp add: schema_check_def finding_suggestions_def map_replicate_const o_def)

lemma not_size_suggestion:
  "empty_card_suggestion \<notin> set size_suggestions"
  "version_suggestion ver \<notin> set size_suggestions"
  by (simp_all add: empty_card_suggestion_def version_suggestion_def size_suggestions_def)

text \<open>
  Claim C5. For every card whose size exceeds the size limit of the instance's target
  (28 for \<^verbatim>\<open>teams\<close>, 40 otherwise), validated by an instance that holds the Teams
  validator (every instance does, from its construction on), the details of the report
  contain \<^verbatim>\<open>SIZE_LIMIT_EXCEEDED\<close> and the suggestions are those of the other failures
  followed by the four fixed size suggestions: that the card size exceeds the limit; to
  reduce the number of elements or simplify complex elements; to minimise images or use
  lower resolution images; to break the content into several smaller cards. When the
  body is not empty and no element fails the schema check, the suggestions are exactly
  those four.
\<close>

theorem validate_size_limit_exceeded:
  assumes "size_limit_kb (validator self) = 28"
    and "of_int (target_size_limit self) < serialized_size_kb lib crd"
  shows "failure_value lib SIZE_LIMIT_EXCEEDED \<in> set (details (fst (validate lib self crd)))
    \<and> suggestions (fst (validate lib self crd))
        = (if body_or_empty crd = []
           then [''Card body is empty. Add at least one element to the card.''] else [])
          @ replicate (length (schema_check lib crd))
              (''Some elements or fields require a newer schema version than ''
               @ [CHR 0x27] @ version crd @ [CHR 0x27] @ ''. ''
               @ ''Consider upgrading the card version or removing incompatible elements.'')
          @ [''Card size exceeds the limit for the target platform.'',
             ''Consider reducing the number of elements or simplifying complex elements.'',
             ''Minimize the use of images or use lower resolution images.'',
             ''Break content into multiple smaller cards if possible.'']
    \<and> (body_or_empty crd \<noteq> [] \<and> schema_check lib crd = []
         \<longrightarrow> suggestions (fst (validate lib self crd))
             = [''Card size exceeds the limit for the target platform.'',
                ''Consider reducing the number of elements or simplifying complex elements.'',
                ''Minimize the use of images or use lower resolution images.'',
                ''Break content into multiple smaller cards if possible.''])"
proof -
  let ?r = "fst (validate lib self crd)"
  have "(28::rat) \<le> of_int (target_size_limit self)"
    by (simp add: target_size_limit_def)
  with assms have exceeded: "size_check lib (validator self) crd = [\<lparr>failure = SIZE_LIMIT_EXCEEDED\<rparr>]"
    by (simp add: size_check_def)
  from assms(2) have tier: "\<not> approaching (serialized_size_kb lib crd) (target_size_limit self)"
    by (simp add: approaching_def)
  have sugg: "suggestions ?r
      = (if body_or_empty crd = [] then [empty_card_suggestion] else [])
        @ replicate (length (schema_check lib crd)) (version_suggestion (version crd))
        @ size_suggestions"
    using exceeded tier
    by (simp add: validate_suggestions structural_suggestions schema_suggestions
        finding_suggestions_def)
  have det: "failure_value lib SIZE_LIMIT_EXCEEDED \<in> set (details ?r)"
    using exceeded by (simp add: validate_details)
  from sugg det show ?thesis
    by (simp add: empty_card_suggestion_def version_suggestion_def size_suggestions_def)
qed

theorem validate_size_limit_exceeded_witness:
  "failure_value
      \<lparr>serialized_size_kb = (\<lambda>c. 30), requires_newer_schema = (\<lambda>k v. False),
       failure_value = (\<lambda>f. if f = SIZE_LIMIT_EXCEEDED then ''size limit exceeded'' else ''other'')\<rparr>
      SIZE_LIMIT_EXCEEDED
     \<in> set (details (fst (validate
          \<lparr>serialized_size_kb = (\<lambda>c. 30), requires_newer_schema = (\<lambda>k v. False),
           failure_value = (\<lambda>f. if f = SIZE_LIMIT_EXCEEDED then ''size limit exceeded'' else ''other'')\<rparr>
          \<lparr>target = ''teams'', validator = create_validator_microsoft_teams\<rparr>
          \<lparr>version = ''1.5'', body = Some [create_text ''Hello'' False None None],
           actions = None\<rparr>)))
   \<and> suggestions (fst (validate
          \<lparr>serialized_size_kb = (\<lambda>c. 30), requires_newer_schema = (\<lambda>k v. False),
           failure_value = (\<lambda>f. if f = SIZE_LIMIT_EXCEEDED then ''size limit exceeded'' else ''other'')\<rparr>
          \<lparr>target = ''teams'', validator = create_validator_microsoft_teams\<rparr>
          \<lparr>version = ''1.5'', body = Some [create_text ''Hello'' False None None],
           actions = None\<rparr>))
     = [''Card size exceeds the limit for the target platform.'',
        ''Consider reducing the number of elements or simplifying complex elements.'',
        ''Minimize the use of images or use lower resolution images.'',
        ''Break content into multiple smaller cards if possible.'']"
proof -
  let ?lib = "\<lparr>serialized_size_kb = (\<lambda>c. 30), requires_newer_schema = (\<lambda>k v. False),
       failure_value = (\<lambda>f. if f = SIZE_LIMIT_EXCEEDED then ''size limit exceeded'' else ''other'')\<rparr>"
  let ?self = "\<lparr>target = ''teams'', validator = create_validator_microsoft_teams\<rparr>"
  let ?crd = "\<lparr>version = ''1.5'', body = Some [create_text ''Hello'' False None None],
           actions = None\<rparr>"
  have teams: "size_limit_kb (validator ?self) = 28"
    by (simp add: create_validator_microsoft_teams_def)
  have big: "of_int (target_size_limit ?self) < serialized_size_kb ?lib ?crd"
    by (simp add: target_size_limit_def lower_def lower_char_def)
  have body: "body_or_empty ?crd \<noteq> []" by (simp add: body_or_empty_def)
  have schema: "schema_check ?lib ?crd = []" by (simp add: schema_check_def)
  from validate_size_limit_exceeded [OF teams big] body schema show ?thesis by blast
qed

lemma threshold_teams:
  "float_mul 28 (float_round (7 / 10)) = 5516909543528857 / 2 ^ 48"
  by code_simp

lemma threshold_other: "float_mul 40 (float_round (7 / 10)) = 28"
  by code_simp

text \<open>
  On floats, comparing with the rounded product \<^verbatim>\<open>size_limit * 0.7\<close> is comparing with
  the exact product. For the limit 40 the rounded product is exactly 28. For the limit 28
  it is the float next below 19.6; a float of at least 16 is a multiple of \<open>2 ^ - 48\<close>,
  and no such multiple lies between the two.
\<close>

lemma size_threshold_teams_exact:
  assumes "s < 16 \<or> (\<exists>n::int. s = of_int n / 2 ^ 48)"
  shows "(float_mul 28 (float_round (7 / 10)) < s) = (28 * (7 / 10) < s)"
proof -
  have thr: "float_mul 28 (float_round (7 / 10)) = 5516909543528857 / 2 ^ 48"
    by (rule threshold_teams)
  from assms show ?thesis
  proof
    assume "s < 16"
    then show ?thesis unfolding thr by simp
  next
    assume "\<exists>n::int. s = of_int n / 2 ^ 48"
    then obtain n :: int where s: "s = of_int n / 2 ^ 48" by blast
    have a: "((5516909543528857::rat) / 2 ^ 48 < of_int n / 2 ^ 48) = (5516909543528857 < n)"
      by (simp add: divide_less_cancel) 
    have "((28::rat) * (7 / 10) < of_int n / 2 ^ 48) = ((27584547717644288::rat) < of_int (5 * n))"
      by (simp add: field_simps)
    also have "\<dots> = (27584547717644288 < 5 * n)"
      by (metis of_int_less_iff of_int_numeral)
    also have "\<dots> = (5516909543528857 < n)"
      by presburger
    finally show ?thesis unfolding thr s using a by simp
  qed
qed

lemma size_threshold_other_exact:
  "(float_mul 40 (float_round (7 / 10)) < s) = (40 * (7 / 10) < s)"
  by (simp add: threshold_other)

text \<open>
  Claim C6, as amended. \<^verbatim>\<open>suggest_optimizations\<close> returns the empty list when the card's
  size is at most \<^verbatim>\<open>size_limit * 0.7\<close>. Above it, the result starts with the line that
  gives the size and its percentage of the limit, and then holds, each decided on its own
  and in this order: the suggestion to reduce the number of elements exactly when the
  body has more than 10 top-level elements; the image suggestion, naming their number,
  exactly when some top-level element of the body has a \<^verbatim>\<open>url\<close>; the container
  suggestion, naming their number, exactly when more than 3 top-level elements of the body
  have \<^verbatim>\<open>items\<close>. Elements inside a container or a column are not counted.
\<close>

theorem suggest_optimizations_rules:
  "suggest_optimizations lib self crd =
     (if serialized_size_kb lib crd
           \<le> float_mul (of_int (target_size_limit self)) (float_round (7 / 10))
      then []
      else (''Card size ('' @ format_fixed 2 (serialized_size_kb lib crd) @ ''KB) is ''
            @ format_fixed 1
                (float_mul
                   (float_div (serialized_size_kb lib crd) (of_int (target_size_limit self)))
                   100)
            @ ''% of the limit.'')
           # (if 10 < length (body_or_empty crd)
              then [''Consider reducing the number of elements in the card.''] else [])
           @ (if list_ex has_url (body_or_empty crd)
              then [''Card contains ''
                    @ str_nat (length (filter has_url (body_or_empty crd)))
                    @ '' images. Consider reducing image count or size.'']
              else [])
           @ (if 3 < length (filter has_items (body_or_empty crd))
              then [''Card contains ''
                    @ str_nat (length (filter has_items (body_or_empty crd)))
                    @ '' containers. Consider simplifying the structure.'']
              else []))"
proof -
  have "(0 < length (filter has_url xs)) = list_ex has_url xs" for xs
    by (induction xs) auto
  then show ?thesis
    by (simp add: suggest_optimizations_def Let_def validator_card_size_def not_less
        percent_message_def reduce_elements_suggestion_def images_suggestion_def
        containers_suggestion_def)
qed

theorem suggest_optimizations_rules_witness:
  "suggest_optimizations
      \<lparr>serialized_size_kb = (\<lambda>c. 22), requires_newer_schema = (\<lambda>k v. False),
       failure_value = (\<lambda>f. [])\<rparr>
      \<lparr>target = ''teams'', validator = create_validator_microsoft_teams\<rparr>
      \<lparr>version = ''1.5'',
       body = Some (replicate 4 (create_container [] None None False None)
                    @ [create_image ''https://example.com/a.png'' None None None]
                    @ replicate 6 (create_text ''x'' False None None)),
       actions = None\<rparr>
     = [''Card size (22.00KB) is 78.6% of the limit.'',
        ''Consider reducing the number of elements in the card.'',
        ''Card contains 1 images. Consider reducing image count or size.'',
        ''Card contains 4 containers. Consider simplifying the structure.'']
   \<and> suggest_optimizations
      \<lparr>serialized_size_kb = (\<lambda>c. 10), requires_newer_schema = (\<lambda>k v. False),
       failure_value = (\<lambda>f. [])\<rparr>
      \<lparr>target = ''teams'', validator = create_validator_microsoft_teams\<rparr>
      \<lparr>version = ''1.5'',
       body = Some [create_image ''https://example.com/a.png'' None None None],
       actions = None\<rparr>
     = []"
  by (simp only: suggest_optimizations_rules) code_simp

text \<open>
  Claim C6 as stated fails. The body below is one container that holds eleven texts and
  an image: the document has 13 elements, one of which has a \<^verbatim>\<open>url\<close>, and its size is
  above 70% of the limit. The result is the percentage line alone: the elements inside
  the container are not counted, so neither the suggestion to reduce the number of
  elements nor the image suggestion is made, and the percentage line is none of the three
  suggestions of the claim.
\<close>

theorem suggest_optimizations_nested_counterexample:
  "length (document_elements
      \<lparr>version = ''1.5'',
       body = Some [create_container
                      (replicate 11 (create_text ''x'' False None None)
                       @ [create_image ''https://example.com/a.png'' None None None])
                      None None False None],
       actions = None\<rparr>) = 13
   \<and> list_ex has_url (document_elements
      \<lparr>version = ''1.5'',
       body = Some [create_container
                      (replicate 11 (create_text ''x'' False None None)
                       @ [create_image ''https://example.com/a.png'' None None None])
                      None None False None],
       actions = None\<rparr>)
   \<and> suggest_optimizations
      \<lparr>serialized_size_kb = (\<lambda>c. 22), requires_newer_schema = (\<lambda>k v. False),
       failure_value = (\<lambda>f. [])\<rparr>
      \<lparr>target = ''teams'', validator = create_validator_microsoft_teams\<rparr>
      \<lparr>version = ''1.5'',
       body = Some [create_container
                      (replicate 11 (create_text ''x'' False None None)
                       @ [create_image ''https://example.com/a.png'' None None None])
                      None None False None],
       actions = None\<rparr>
     = [''Card size (22.00KB) is 78.6% of the limit.'']"
  by code_simp

end
